theory Spec2Isabelle
  imports Complex_Main "HOL-Library.Word"
begin

unbundle bit_operations_syntax

section \<open>Text and the interpreter's string operations\<close>

text \<open>
  The program is \<^verbatim>\<open>simple_embedding_server.py\<close>. A Python \<^verbatim>\<open>str\<close> is a sequence of
  Unicode code points, so a text is a list of code points (\<open>nat\<close>); \<open>len\<close> is
  \<open>length\<close>. Python floats are modelled by the reals: every arithmetic step of the
  source is taken exactly, without rounding.
\<close>

type_synonym pystr = "nat list"

text \<open>An ASCII literal of the source, as a text.\<close>

definition ascii :: "string \<Rightarrow> pystr" where
  "ascii s = map of_char s"

text \<open>
  The characters that \<^verbatim>\<open>\s\<close>, \<^verbatim>\<open>str.strip()\<close> and \<^verbatim>\<open>str.split()\<close> treat as
  whitespace: U+0009-000D, U+001C-0020, U+0085, U+00A0, U+1680, U+2000-200A, U+2028,
  U+2029, U+202F, U+205F, U+3000.
\<close>

definition isspace :: "nat \<Rightarrow> bool" where
  "isspace c \<longleftrightarrow>
     (9 \<le> c \<and> c \<le> 13) \<or> (28 \<le> c \<and> c \<le> 32) \<or> c = 133 \<or> c = 160 \<or> c = 5760 \<or>
     (8192 \<le> c \<and> c \<le> 8202) \<or> c = 8232 \<or> c = 8233 \<or> c = 8239 \<or> c = 8287 \<or> c = 12288"

text \<open>The ranges of the character class \<^verbatim>\<open>[^\uAC00-\uD7A3a-zA-Z0-9\s]\<close>: U+AC00-D7A3, a-z, A-Z, 0-9.\<close>

definition is_hangul :: "nat \<Rightarrow> bool" where
  "is_hangul c \<longleftrightarrow> 44032 \<le> c \<and> c \<le> 55203"

definition is_latin :: "nat \<Rightarrow> bool" where
  "is_latin c \<longleftrightarrow> (97 \<le> c \<and> c \<le> 122) \<or> (65 \<le> c \<and> c \<le> 90)"

definition is_digit :: "nat \<Rightarrow> bool" where
  "is_digit c \<longleftrightarrow> 48 \<le> c \<and> c \<le> 57"

text \<open>
  What the program takes from the interpreter and not from its own source:
  \<^item> \<open>str_lower\<close>: \<^verbatim>\<open>str.lower()\<close> on a text with a non-ASCII character (the Unicode case
    tables);
  \<^item> \<open>str_hash\<close>: the built-in \<^verbatim>\<open>hash\<close> on \<^verbatim>\<open>str\<close>, as it is in the running process;
  \<^item> \<open>exn_str\<close>: \<^verbatim>\<open>str(e)\<close> of an exception caught by a request handler.
\<close>

datatype failure =
    BadBody pystr
  | NoAttribute pystr pystr
  | NotIterable pystr

record runtime =
  str_lower :: "pystr \<Rightarrow> pystr"
  str_hash :: "pystr \<Rightarrow> int"
  exn_str :: "failure \<Rightarrow> pystr"

text \<open>
  \<^verbatim>\<open>str.lower()\<close>: on an ASCII-only text it maps A-Z to a-z and leaves the rest; on any
  other text it is the runtime's case mapping.
\<close>

definition ascii_lower :: "nat \<Rightarrow> nat" where
  "ascii_lower c = (if 65 \<le> c \<and> c \<le> 90 then c + 32 else c)"

definition lower :: "runtime \<Rightarrow> pystr \<Rightarrow> pystr" where
  "lower rt t = (if \<forall>c \<in> set t. c < 128 then map ascii_lower t else str_lower rt t)"

text \<open>\<^verbatim>\<open>re.sub(r'[^\uAC00-\uD7A3a-zA-Z0-9\s]', ' ', text)\<close>: every character outside the class becomes a space.\<close>

definition sub_other :: "pystr \<Rightarrow> pystr" where
  "sub_other t =
     map (\<lambda>c. if is_hangul c \<or> is_latin c \<or> is_digit c \<or> isspace c then c else 32) t"

text \<open>\<^verbatim>\<open>re.sub(r'\s+', ' ', text)\<close>: every maximal run of whitespace becomes one space.\<close>

function sub_spaces :: "pystr \<Rightarrow> pystr" where
  "sub_spaces [] = []"
| "sub_spaces (c # cs) =
     (if isspace c then 32 # sub_spaces (dropWhile isspace cs) else c # sub_spaces cs)"
  by pat_completeness auto
termination
  by (relation "measure length") (auto simp: less_Suc_eq_le length_dropWhile_le)

text \<open>\<^verbatim>\<open>str.strip()\<close> without argument.\<close>

definition strip :: "pystr \<Rightarrow> pystr" where
  "strip t = rev (dropWhile isspace (rev (dropWhile isspace t)))"

text \<open>\<^verbatim>\<open>str.split()\<close> without argument: the maximal runs of non-whitespace, in order.\<close>

function str_split :: "pystr \<Rightarrow> pystr list" where
  "str_split t =
     (case dropWhile isspace t of
        [] \<Rightarrow> []
      | c # cs \<Rightarrow> (c # takeWhile (\<lambda>x. \<not> isspace x) cs)
                  # str_split (dropWhile (\<lambda>x. \<not> isspace x) cs))"
  by pat_completeness auto
termination
proof (relation "measure length")
  fix t :: pystr and c cs
  assume a: "dropWhile isspace t = c # cs"
  have "length (dropWhile (\<lambda>x. \<not> isspace x) cs) \<le> length cs"
    by (rule length_dropWhile_le)
  moreover have "length (c # cs) \<le> length t"
    using length_dropWhile_le [of isspace t] a by simp
  ultimately show "(dropWhile (\<lambda>x. \<not> isspace x) cs, t) \<in> measure length"
    by simp
qed simp

declare str_split.simps [simp del]

section \<open>SimpleEmbeddingModel\<close>

definition dimension :: nat where
  "dimension = 768"

definition preprocess_text :: "runtime \<Rightarrow> pystr \<Rightarrow> pystr" where
  "preprocess_text rt text0 =
     (let text1 = lower rt text0;
          text2 = sub_other text1;
          text3 = strip (sub_spaces text2)
      in text3)"

definition tokenize :: "runtime \<Rightarrow> pystr \<Rightarrow> pystr list" where
  "tokenize rt text0 =
     (let text1 = preprocess_text rt text0;
          words = str_split text1
      in filter (\<lambda>word. length word \<ge> 2) words)"

text \<open>\<^verbatim>\<open>str(i)\<close> for the non-negative integers of \<^verbatim>\<open>range(self.dimension)\<close>.\<close>

fun str_nat :: "nat \<Rightarrow> pystr" where
  "str_nat n = (if n < 10 then [48 + n] else str_nat (n div 10) @ [48 + n mod 10])"

declare str_nat.simps [simp del]

text \<open>
  The inner loop \<^verbatim>\<open>for j, token in enumerate(tokens)\<close> of \<open>create_embedding\<close>, with the
  accumulator \<open>value\<close>. Python's \<^verbatim>\<open>%\<close> with a positive modulus is the floored \<open>mod\<close>.
\<close>

fun token_loop :: "runtime \<Rightarrow> nat \<Rightarrow> (nat \<times> pystr) list \<Rightarrow> real \<Rightarrow> real" where
  "token_loop rt i [] value = value"
| "token_loop rt i ((j, token) # rest) value =
     (let hash_val = str_hash rt (token @ str_nat i) mod 1000
      in token_loop rt i rest (value + (real_of_int hash_val / 1000) * (1 / (real j + 1))))"

text \<open>The outer loop \<^verbatim>\<open>for i in range(self.dimension)\<close>, appending to \<open>embedding\<close>.\<close>

fun dimension_loop :: "runtime \<Rightarrow> pystr list \<Rightarrow> nat list \<Rightarrow> real list \<Rightarrow> real list" where
  "dimension_loop rt tokens [] embedding = embedding"
| "dimension_loop rt tokens (i # rest) embedding =
     (let value = token_loop rt i (enumerate 0 tokens) 0
      in dimension_loop rt tokens rest (embedding @ [value / real (max (length tokens) 1)]))"

text \<open>The vector before the final normalisation (lines 51-62).\<close>

definition raw_embedding :: "runtime \<Rightarrow> pystr list \<Rightarrow> real list" where
  "raw_embedding rt tokens = dimension_loop rt tokens [0..<dimension] []"

text \<open>\<^verbatim>\<open>math.sqrt(sum(x*x for x in embedding))\<close>.\<close>

definition euclid_norm :: "real list \<Rightarrow> real" where
  "euclid_norm embedding = sqrt (sum_list (map (\<lambda>x. x * x) embedding))"

definition create_embedding :: "runtime \<Rightarrow> pystr \<Rightarrow> real list" where
  "create_embedding rt text0 =
     (let tokens = tokenize rt text0;
          embedding = raw_embedding rt tokens;
          nrm = euclid_norm embedding
      in if nrm > 0 then map (\<lambda>x. x / nrm) embedding else embedding)"

text \<open>\<^verbatim>\<open>sum(a * b for a, b in zip(emb1, emb2))\<close>.\<close>

definition dot :: "real list \<Rightarrow> real list \<Rightarrow> real" where
  "dot emb1 emb2 = sum_list (map (\<lambda>(a, b). a * b) (zip emb1 emb2))"

definition calculate_similarity :: "runtime \<Rightarrow> pystr \<Rightarrow> pystr \<Rightarrow> real" where
  "calculate_similarity rt text1 text2 =
     (let emb1 = create_embedding rt text1;
          emb2 = create_embedding rt text2;
          dot_product = dot emb1 emb2
      in max 0 (min 1 dot_product))"

section \<open>EmbeddingRequestHandler\<close>

text \<open>
  The values \<^verbatim>\<open>json.loads\<close> returns and \<^verbatim>\<open>json.dumps\<close> takes. A \<open>PDict\<close> holds the
  items of a dict, looked up by \<open>map_of\<close>.
\<close>

datatype pyval =
    PNone
  | PBool bool
  | PInt int
  | PFloat real
  | PStr pystr
  | PList "pyval list"
  | PDict "(pystr \<times> pyval) list"

fun type_name :: "pyval \<Rightarrow> pystr" where
  "type_name PNone = ascii ''NoneType''"
| "type_name (PBool b) = ascii ''bool''"
| "type_name (PInt n) = ascii ''int''"
| "type_name (PFloat x) = ascii ''float''"
| "type_name (PStr s) = ascii ''str''"
| "type_name (PList xs) = ascii ''list''"
| "type_name (PDict items) = ascii ''dict''"

text \<open>\<^verbatim>\<open>not v\<close>.\<close>

fun falsy :: "pyval \<Rightarrow> bool" where
  "falsy PNone = True"
| "falsy (PBool b) = (\<not> b)"
| "falsy (PInt n) = (n = 0)"
| "falsy (PFloat x) = (x = 0)"
| "falsy (PStr s) = (s = [])"
| "falsy (PList xs) = (xs = [])"
| "falsy (PDict items) = (items = [])"

text \<open>\<^verbatim>\<open>request_data.get(key, default)\<close>: only a dict has the method.\<close>

definition dict_get :: "pyval \<Rightarrow> pystr \<Rightarrow> pyval \<Rightarrow> failure + pyval" where
  "dict_get request_data key dflt =
     (case request_data of
        PDict items \<Rightarrow> Inr (case map_of items key of Some v \<Rightarrow> v | None \<Rightarrow> dflt)
      | _ \<Rightarrow> Inl (NoAttribute (type_name request_data) (ascii ''get'')))"

text \<open>What \<^verbatim>\<open>for text in texts\<close> runs over: the elements of a list, the characters of a
  str, the keys of a dict; any other value is not iterable.\<close>

fun iterate :: "pyval \<Rightarrow> failure + pyval list" where
  "iterate (PList xs) = Inr xs"
| "iterate (PStr s) = Inr (map (\<lambda>c. PStr [c]) s)"
| "iterate (PDict items) = Inr (map (\<lambda>(k, v). PStr k) items)"
| "iterate v = Inl (NotIterable (type_name v))"

text \<open>\<open>create_embedding\<close> on a value of the request: \<^verbatim>\<open>text.lower()\<close> exists on str only.\<close>

fun create_embedding_of :: "runtime \<Rightarrow> pyval \<Rightarrow> failure + real list" where
  "create_embedding_of rt (PStr s) = Inr (create_embedding rt s)"
| "create_embedding_of rt v = Inl (NoAttribute (type_name v) (ascii ''lower''))"

text \<open>\<open>calculate_similarity\<close> on two values of the request.\<close>

definition calculate_similarity_of :: "runtime \<Rightarrow> pyval \<Rightarrow> pyval \<Rightarrow> failure + real" where
  "calculate_similarity_of rt text1 text2 =
     (case create_embedding_of rt text1 of
        Inl e \<Rightarrow> Inl e
      | Inr emb1 \<Rightarrow>
          (case create_embedding_of rt text2 of
             Inl e \<Rightarrow> Inl e
           | Inr emb2 \<Rightarrow> Inr (max 0 (min 1 (dot emb1 emb2)))))"

text \<open>A response: the status and the JSON document sent (the CORS headers are the same
  on every response and left out).\<close>

record response =
  status_code :: nat
  data :: pyval

definition send_response_json :: "pyval \<Rightarrow> nat \<Rightarrow> response" where
  "send_response_json d code = \<lparr>status_code = code, data = d\<rparr>"

text \<open>The loop of lines 167-170; an exception leaves it at once.\<close>

fun embed_loop :: "runtime \<Rightarrow> pyval list \<Rightarrow> real list list \<Rightarrow> failure + real list list" where
  "embed_loop rt [] embeddings = Inr embeddings"
| "embed_loop rt (text0 # rest) embeddings =
     (case create_embedding_of rt text0 of
        Inl e \<Rightarrow> Inl e
      | Inr embedding \<Rightarrow> embed_loop rt rest (embeddings @ [embedding]))"

text \<open>
  The \<^verbatim>\<open>try\<close> block of \<open>handle_embed_request\<close> from line 158 on. \<open>start_time\<close> and
  \<open>end_time\<close> are the two readings of \<^verbatim>\<open>time.time()\<close>.
\<close>

definition embed_try :: "runtime \<Rightarrow> real \<Rightarrow> real \<Rightarrow> pyval \<Rightarrow> failure + response" where
  "embed_try rt start_time end_time request_data =
     (case dict_get request_data (ascii ''texts'') (PList []) of
        Inl e \<Rightarrow> Inl e
      | Inr texts \<Rightarrow>
     (case dict_get request_data (ascii ''normalize'') (PBool True) of
        Inl e \<Rightarrow> Inl e
      | Inr normalize0 \<Rightarrow>
          if falsy texts then
            Inr (send_response_json (PDict [(ascii ''error'', PStr (ascii ''No texts provided''))]) 400)
          else
            (case iterate texts of
               Inl e \<Rightarrow> Inl e
             | Inr items \<Rightarrow>
            (case embed_loop rt items [] of
               Inl e \<Rightarrow> Inl e
             | Inr embeddings \<Rightarrow>
                 let processing_time = end_time - start_time;
                     response_data = PDict
                       [(ascii ''embeddings'', PList (map (\<lambda>e. PList (map PFloat e)) embeddings)),
                        (ascii ''model_name'', PStr (ascii ''simple-korean-embedding'')),
                        (ascii ''dimension'', PInt (int dimension)),
                        (ascii ''processing_time'', PFloat processing_time)]
                 in Inr (send_response_json response_data 200)))))"

text \<open>
  \<open>handle_embed_request\<close>. \<open>request\<close> is the outcome of lines 154-156 (reading the
  Content-Length header and the body, \<^verbatim>\<open>json.loads\<close>): the parsed document, or the
  exception raised there. Every exception ends in the 500 response of the \<^verbatim>\<open>except\<close> clause.
\<close>

definition handle_embed_request :: "runtime \<Rightarrow> real \<Rightarrow> real \<Rightarrow> failure + pyval \<Rightarrow> response" where
  "handle_embed_request rt start_time end_time request =
     (case (case request of
              Inl e \<Rightarrow> Inl e
            | Inr request_data \<Rightarrow> embed_try rt start_time end_time request_data) of
        Inl e \<Rightarrow> send_response_json (PDict [(ascii ''error'', PStr (exn_str rt e))]) 500
      | Inr resp \<Rightarrow> resp)"

definition similarity_try :: "runtime \<Rightarrow> real \<Rightarrow> real \<Rightarrow> pyval \<Rightarrow> failure + response" where
  "similarity_try rt start_time end_time request_data =
     (case dict_get request_data (ascii ''text1'') (PStr []) of
        Inl e \<Rightarrow> Inl e
      | Inr text1 \<Rightarrow>
     (case dict_get request_data (ascii ''text2'') (PStr []) of
        Inl e \<Rightarrow> Inl e
      | Inr text2 \<Rightarrow>
          if falsy text1 \<or> falsy text2 then
            Inr (send_response_json
                   (PDict [(ascii ''error'', PStr (ascii ''Both text1 and text2 are required''))]) 400)
          else
            (case calculate_similarity_of rt text1 text2 of
               Inl e \<Rightarrow> Inl e
             | Inr similarity \<Rightarrow>
                 let processing_time = end_time - start_time;
                     response_data = PDict
                       [(ascii ''similarity'', PFloat similarity),
                        (ascii ''processing_time'', PFloat processing_time)]
                 in Inr (send_response_json response_data 200))))"

definition handle_similarity_request :: "runtime \<Rightarrow> real \<Rightarrow> real \<Rightarrow> failure + pyval \<Rightarrow> response" where
  "handle_similarity_request rt start_time end_time request =
     (case (case request of
              Inl e \<Rightarrow> Inl e
            | Inr request_data \<Rightarrow> similarity_try rt start_time end_time request_data) of
        Inl e \<Rightarrow> send_response_json (PDict [(ascii ''error'', PStr (exn_str rt e))]) 500
      | Inr resp \<Rightarrow> resp)"

text \<open>A field of the JSON object of a response.\<close>

definition field :: "response \<Rightarrow> pystr \<Rightarrow> pyval option" where
  "field resp key = (case data resp of PDict items \<Rightarrow> map_of items key | _ \<Rightarrow> None)"

section \<open>The interpreter's str hash\<close>

text \<open>
  The built-in \<^verbatim>\<open>hash\<close> of a str in CPython 3.11 (\<^verbatim>\<open>Python/pyhash.c\<close>): SipHash-1-3 of
  the string's bytes under the key \<open>(k0, k1)\<close> of the process. It gives a runtime on
  which the program can be evaluated at concrete inputs.
\<close>

type_synonym u64 = "64 word"

definition ROTATE :: "u64 \<Rightarrow> nat \<Rightarrow> u64" where
  "ROTATE x b = (push_bit b x) OR (drop_bit (64 - b) x)"

definition HALF_ROUND :: "u64 \<times> u64 \<times> u64 \<times> u64 \<Rightarrow> nat \<Rightarrow> nat \<Rightarrow> u64 \<times> u64 \<times> u64 \<times> u64" where
  "HALF_ROUND v s t =
     (case v of (a, b, c, d) \<Rightarrow>
        let a = a + b; c = c + d;
            b = ROTATE b s XOR a;
            d = ROTATE d t XOR c;
            a = ROTATE a 32
        in (a, b, c, d))"

definition SINGLE_ROUND :: "u64 \<times> u64 \<times> u64 \<times> u64 \<Rightarrow> u64 \<times> u64 \<times> u64 \<times> u64" where
  "SINGLE_ROUND v =
     (case v of (v0, v1, v2, v3) \<Rightarrow>
        case HALF_ROUND (v0, v1, v2, v3) 13 16 of (v0, v1, v2, v3) \<Rightarrow>
        case HALF_ROUND (v2, v1, v0, v3) 17 21 of (v2, v1, v0, v3) \<Rightarrow>
          (v0, v1, v2, v3))"

text \<open>Up to eight bytes as a little-endian word.\<close>

fun le64 :: "nat list \<Rightarrow> u64" where
  "le64 [] = 0"
| "le64 (x # xs) = of_nat x + push_bit 8 (le64 xs)"

text \<open>The loop \<^verbatim>\<open>while (src_sz >= 8)\<close> over the full blocks; it returns the bytes left.\<close>

function sip_blocks ::
  "nat list \<Rightarrow> u64 \<times> u64 \<times> u64 \<times> u64 \<Rightarrow> nat list \<times> (u64 \<times> u64 \<times> u64 \<times> u64)" where
  "sip_blocks src v =
     (if length src \<ge> 8 then
        (case v of (v0, v1, v2, v3) \<Rightarrow>
           let mi = le64 (take 8 src);
               v3 = v3 XOR mi
           in case SINGLE_ROUND (v0, v1, v2, v3) of (v0, v1, v2, v3) \<Rightarrow>
                sip_blocks (drop 8 src) (v0 XOR mi, v1, v2, v3))
      else (src, v))"
  by pat_completeness auto
termination
  by (relation "measure (\<lambda>(src, v). length src)") auto

declare sip_blocks.simps [simp del]

definition siphash13 :: "u64 \<Rightarrow> u64 \<Rightarrow> nat list \<Rightarrow> u64" where
  "siphash13 k0 k1 src =
     (let b = push_bit 56 (of_nat (length src));
          v0 = k0 XOR 0x736f6d6570736575;
          v1 = k1 XOR 0x646f72616e646f6d;
          v2 = k0 XOR 0x6c7967656e657261;
          v3 = k1 XOR 0x7465646279746573
      in case sip_blocks src (v0, v1, v2, v3) of (rest, (v0, v1, v2, v3)) \<Rightarrow>
         let b = b OR le64 rest;
             v3 = v3 XOR b
         in case SINGLE_ROUND (v0, v1, v2, v3) of (v0, v1, v2, v3) \<Rightarrow>
         let v0 = v0 XOR b;
             v2 = v2 XOR 0xff
         in case SINGLE_ROUND (SINGLE_ROUND (SINGLE_ROUND (v0, v1, v2, v3))) of
              (v0, v1, v2, v3) \<Rightarrow> (v0 XOR v1) XOR (v2 XOR v3))"

text \<open>
  The bytes of a str object (PEP 393): one, two or four bytes per character, by the
  largest code point of the string, little-endian.
\<close>

definition unicode_data :: "pystr \<Rightarrow> nat list" where
  "unicode_data s =
     (if \<forall>c \<in> set s. c < 256 then s
      else if \<forall>c \<in> set s. c < 65536 then concat (map (\<lambda>c. [c mod 256, c div 256]) s)
      else concat (map (\<lambda>c. [c mod 256, c div 256 mod 256, c div 65536 mod 256, c div 16777216]) s))"

text \<open>\<^verbatim>\<open>unicode_hash\<close> through \<^verbatim>\<open>_Py_HashBytes\<close>: 0 for the empty string, and -1 is not a hash.\<close>

definition unicode_hash :: "u64 \<times> u64 \<Rightarrow> pystr \<Rightarrow> int" where
  "unicode_hash secret s =
     (case secret of (k0, k1) \<Rightarrow>
        let src = unicode_data s
        in if length src = 0 then 0
           else let x = sint (siphash13 k0 k1 src)
                in if x = - 1 then - 2 else x)"

text \<open>
  The key of a process started with \<^verbatim>\<open>PYTHONHASHSEED=seed\<close> (\<^verbatim>\<open>Python/bootstrap_hash.c\<close>):
  all zero for seed 0, else the bytes of a linear congruential generator. Without the
  variable the key is read from the system's random source at every start.
\<close>

fun lcg_urandom :: "32 word \<Rightarrow> nat \<Rightarrow> nat list" where
  "lcg_urandom x n =
     (if n = 0 then []
      else let x = x * 214013 + 2531011
           in unat (drop_bit 16 x AND 0xff) # lcg_urandom x (n - 1))"

declare lcg_urandom.simps [simp del]

definition hash_secret :: "nat \<Rightarrow> u64 \<times> u64" where
  "hash_secret seed =
     (if seed = 0 then (0, 0)
      else let buffer = lcg_urandom (of_nat seed) 16
           in (le64 (take 8 buffer), le64 (drop 8 buffer)))"

text \<open>\<^verbatim>\<open>str(e)\<close> of the exceptions the handlers can catch; 39 is the apostrophe.\<close>

fun exception_text :: "failure \<Rightarrow> pystr" where
  "exception_text (BadBody msg) = msg"
| "exception_text (NoAttribute ty attr) =
     [39] @ ty @ [39] @ ascii '' object has no attribute '' @ [39] @ attr @ [39]"
| "exception_text (NotIterable ty) = [39] @ ty @ [39] @ ascii '' object is not iterable''"

text \<open>
  A process with the given key. Its case mapping outside ASCII is the one of texts whose
  other characters have no case, such as Hangul syllables.
\<close>

definition cpython :: "u64 \<times> u64 \<Rightarrow> runtime" where
  "cpython secret =
     \<lparr>str_lower = map ascii_lower, str_hash = unicode_hash secret, exn_str = exception_text\<rparr>"


section \<open>The specification's formulas\<close>

text \<open>
  Specification 4.2: \<open>contribution(token, i, j) = (stable_hash(token ++ str(i)) mod 1000)
  / 1000.0 * 1/(j+1)\<close>, and the raw component \<open>i\<close> is the sum of the contributions of all
  tokens divided by \<open>max(len(tokens), 1)\<close>.
\<close>

definition contribution :: "(pystr \<Rightarrow> int) \<Rightarrow> pystr \<Rightarrow> nat \<Rightarrow> nat \<Rightarrow> real" where
  "contribution stable_hash token i j =
     real_of_int (stable_hash (token @ str_nat i) mod 1000) / 1000 * (1 / (real j + 1))"

definition raw_component :: "(pystr \<Rightarrow> int) \<Rightarrow> pystr list \<Rightarrow> nat \<Rightarrow> real" where
  "raw_component stable_hash tokens i =
     (\<Sum>j<length tokens. contribution stable_hash (tokens ! j) i j) / real (max (length tokens) 1)"

text \<open>
  Every token's hash is a multiple of 1000 in every dimension: all contributions are 0.
  It holds of the empty token sequence.
\<close>

definition zero_residues :: "runtime \<Rightarrow> pystr list \<Rightarrow> bool" where
  "zero_residues rt tokens \<longleftrightarrow>
     (\<forall>tok \<in> set tokens. \<forall>i \<in> set [0..<dimension]. str_hash rt (tok @ str_nat i) mod 1000 = 0)"


text \<open>
  Specification 4.1, step by step: replace every character that is not a Hangul syllable,
  a Latin letter, a digit or whitespace by a space; collapse runs of whitespace into one
  space; trim the edges; split on whitespace; discard tokens shorter than 2 characters.
\<close>

definition replace_other :: "pystr \<Rightarrow> pystr" where
  "replace_other t =
     map (\<lambda>c. if is_hangul c \<or> is_latin c \<or> is_digit c \<or> isspace c then c else 32) t"

fun collapse_runs :: "pystr \<Rightarrow> pystr" where
  "collapse_runs [] = []"
| "collapse_runs [c] = [if isspace c then 32 else c]"
| "collapse_runs (c # d # cs) =
     (if isspace c \<and> isspace d then collapse_runs (d # cs)
      else (if isspace c then 32 else c) # collapse_runs (d # cs))"

text \<open>Splitting on whitespace, one character at a time; \<open>w\<close> is the word read so far.\<close>

fun split_ws :: "pystr \<Rightarrow> pystr \<Rightarrow> pystr list" where
  "split_ws w [] = (if w = [] then [] else [w])"
| "split_ws w (c # cs) =
     (if isspace c then (if w = [] then split_ws [] cs else w # split_ws [] cs)
      else split_ws (w @ [c]) cs)"

definition normalize_and_tokenize :: "(pystr \<Rightarrow> pystr) \<Rightarrow> pystr \<Rightarrow> pystr list" where
  "normalize_and_tokenize lowercase t =
     filter (\<lambda>w. 2 \<le> length w)
       (split_ws [] (strip (collapse_runs (replace_other (lowercase t)))))"

section \<open>Evaluation at concrete inputs\<close>

lemma str_split_Nil: "str_split [] = []"
  by (subst str_split.simps) simp

lemma str_split_Cons:
  "str_split (c # cs) =
     (if isspace c then str_split cs
      else (c # takeWhile (\<lambda>x. \<not> isspace x) cs) # str_split (dropWhile (\<lambda>x. \<not> isspace x) cs))"
proof (cases "isspace c")
  case True
  then show ?thesis
    by (subst str_split.simps, subst (2) str_split.simps) simp
next
  case False
  then show ?thesis
    by (subst str_split.simps) simp
qed

lemmas eval_text = ascii_def tokenize_def preprocess_text_def lower_def ascii_lower_def sub_other_def
      is_hangul_def is_latin_def is_digit_def isspace_def strip_def str_split_Nil str_split_Cons

lemmas eval_hash = unicode_hash_def unicode_data_def siphash13_def sip_blocks.simps
  SINGLE_ROUND_def HALF_ROUND_def ROTATE_def

lemma hash_secret_0: "hash_secret 0 = (0, 0)"
  by (simp add: hash_secret_def)

section \<open>The embedding loops\<close>

lemma token_loop_sum:
  "token_loop rt i (enumerate k toks) v =
     v + (\<Sum>j<length toks. contribution (str_hash rt) (toks ! j) i (k + j))"
proof (induction toks arbitrary: k v)
  case Nil
  show ?case by simp
next
  case (Cons t toks)
  have "(\<Sum>j<Suc (length toks). contribution (str_hash rt) ((t # toks) ! j) i (k + j)) =
        contribution (str_hash rt) t i k +
        (\<Sum>j<length toks. contribution (str_hash rt) (toks ! j) i (Suc k + j))"
    by (subst sum.lessThan_Suc_shift) simp
  then show ?case
    using Cons.IH [of "Suc k"] by (simp add: contribution_def)
qed

lemma dimension_loop_map:
  "dimension_loop rt tokens idxs acc =
     acc @ map (\<lambda>i. token_loop rt i (enumerate 0 tokens) 0 / real (max (length tokens) 1)) idxs"
  by (induction idxs arbitrary: acc) simp_all

lemma raw_embedding_map:
  "raw_embedding rt tokens = map (raw_component (str_hash rt) tokens) [0..<dimension]"
  by (simp add: raw_embedding_def dimension_loop_map token_loop_sum raw_component_def)

lemma length_raw_embedding: "length (raw_embedding rt tokens) = dimension"
  by (simp add: raw_embedding_map)

lemma length_create_embedding: "length (create_embedding rt t) = dimension"
  by (simp add: create_embedding_def Let_def length_raw_embedding)

lemma contribution_nonneg: "0 \<le> contribution h token i j"
  by (simp add: contribution_def)

lemma raw_component_nonneg: "0 \<le> raw_component h tokens i"
  unfolding raw_component_def
  by (intro divide_nonneg_nonneg sum_nonneg contribution_nonneg) simp

lemma raw_embedding_nonneg: "x \<in> set (raw_embedding rt tokens) \<Longrightarrow> 0 \<le> x"
  by (auto simp: raw_embedding_map raw_component_nonneg)

lemma sum_squares_nonneg: "0 \<le> sum_list (map (\<lambda>x. x * x) (xs :: real list))"
  by (rule sum_list_nonneg) auto

lemma euclid_norm_nonneg: "0 \<le> euclid_norm xs"
  by (simp add: euclid_norm_def sum_squares_nonneg)

lemma create_embedding_nonneg: "x \<in> set (create_embedding rt t) \<Longrightarrow> 0 \<le> x"
  by (auto simp: create_embedding_def Let_def dest: raw_embedding_nonneg split: if_splits)

lemma dot_nonneg:
  "(\<And>x. x \<in> set xs \<Longrightarrow> 0 \<le> x) \<Longrightarrow> (\<And>y. y \<in> set ys \<Longrightarrow> 0 \<le> y) \<Longrightarrow> 0 \<le> dot xs ys"
  unfolding dot_def
  by (rule sum_list_nonneg) (auto intro!: mult_nonneg_nonneg dest: set_zip_leftD set_zip_rightD)

lemma dot_self: "dot xs xs = (euclid_norm xs)\<^sup>2"
proof -
  have "zip xs xs = map (\<lambda>x. (x, x)) xs" by (induction xs) simp_all
  then have "dot xs xs = sum_list (map (\<lambda>x. x * x) xs)"
    by (simp add: dot_def comp_def)
  then show ?thesis by (simp add: euclid_norm_def sum_squares_nonneg)
qed

lemma dot_scale: "dot (map (\<lambda>x. x / c) xs) (map (\<lambda>y. y / d) ys) = dot xs ys / (c * d)"
proof -
  have "dot (map (\<lambda>x. x / c) xs) (map (\<lambda>y. y / d) ys) =
        sum_list (map (\<lambda>p. (fst p * snd p) / (c * d)) (zip xs ys))"
    by (simp add: dot_def zip_map_map comp_def split_def)
  also have "\<dots> = sum_list (map (\<lambda>p. fst p * snd p) (zip xs ys)) / (c * d)"
    by (simp add: divide_inverse sum_list_mult_const)
  finally show ?thesis by (simp add: dot_def split_def)
qed

lemma euclid_norm_normalised:
  assumes "0 < euclid_norm xs"
  shows "euclid_norm (map (\<lambda>x. x / euclid_norm xs) xs) = 1"
proof -
  let ?n = "euclid_norm xs"
  have "(euclid_norm (map (\<lambda>x. x / ?n) xs))\<^sup>2 = dot xs xs / (?n * ?n)"
    by (simp add: dot_self [symmetric] dot_scale)
  also have "\<dots> = 1" using assms by (simp add: dot_self power2_eq_square)
  finally show ?thesis using euclid_norm_nonneg [of "map (\<lambda>x. x / ?n) xs"]
    by (simp add: power2_eq_1_iff)
qed

lemma euclid_norm_zero_iff: "euclid_norm xs = 0 \<longleftrightarrow> (\<forall>x \<in> set xs. x = 0)"
proof -
  have "sum_list (map (\<lambda>x. x * x) xs) = 0 \<longleftrightarrow> (\<forall>x \<in> set xs. x = 0)"
  proof (induction xs)
    case Nil
    show ?case by simp
  next
    case (Cons a xs)
    have "0 \<le> a * a" by simp
    then have "a * a + sum_list (map (\<lambda>x. x * x) xs) = 0 \<longleftrightarrow>
          a * a = 0 \<and> sum_list (map (\<lambda>x. x * x) xs) = 0"
      using sum_squares_nonneg [of xs] by (rule add_nonneg_eq_0_iff)
    with Cons show ?case by simp
  qed
  then show ?thesis by (simp add: euclid_norm_def)
qed


section \<open>Zero vectors and unit vectors\<close>

lemma contribution_zero_iff: "contribution h token i j = 0 \<longleftrightarrow> h (token @ str_nat i) mod 1000 = 0"
proof -
  have "real j + 1 \<noteq> 0" by (simp add: add_nonneg_eq_0_iff)
  then show ?thesis by (simp add: contribution_def)
qed

lemma raw_component_zero_iff:
  "raw_component h tokens i = 0 \<longleftrightarrow> (\<forall>tok \<in> set tokens. h (tok @ str_nat i) mod 1000 = 0)"
proof -
  have "raw_component h tokens i = 0 \<longleftrightarrow>
        (\<Sum>j<length tokens. contribution h (tokens ! j) i j) = 0"
    by (simp add: raw_component_def)
  also have "\<dots> \<longleftrightarrow> (\<forall>j<length tokens. contribution h (tokens ! j) i j = 0)"
    by (subst sum_nonneg_eq_0_iff) (auto simp: contribution_nonneg)
  also have "\<dots> \<longleftrightarrow> (\<forall>tok \<in> set tokens. h (tok @ str_nat i) mod 1000 = 0)"
    by (simp add: contribution_zero_iff all_set_conv_all_nth)
  finally show ?thesis .
qed

lemma raw_embedding_zero_iff:
  "(\<forall>x \<in> set (raw_embedding rt tokens). x = 0) \<longleftrightarrow> zero_residues rt tokens"
  by (auto simp: raw_embedding_map raw_component_zero_iff zero_residues_def)

lemma create_embedding_if:
  "create_embedding rt t =
     (if euclid_norm (raw_embedding rt (tokenize rt t)) > 0
      then map (\<lambda>x. x / euclid_norm (raw_embedding rt (tokenize rt t)))
             (raw_embedding rt (tokenize rt t))
      else raw_embedding rt (tokenize rt t))"
  by (simp add: create_embedding_def Let_def)

lemma create_embedding_zero:
  assumes "zero_residues rt (tokenize rt t)"
  shows "create_embedding rt t = replicate dimension 0"
proof -
  have z: "\<forall>x \<in> set (raw_embedding rt (tokenize rt t)). x = 0"
    using assms by (simp add: raw_embedding_zero_iff)
  then have "euclid_norm (raw_embedding rt (tokenize rt t)) = 0"
    by (simp add: euclid_norm_zero_iff)
  then have "create_embedding rt t = raw_embedding rt (tokenize rt t)"
    by (simp add: create_embedding_if)
  also have "\<dots> = replicate (length (raw_embedding rt (tokenize rt t))) 0"
    using z by (simp add: replicate_length_same)
  finally show ?thesis by (simp add: length_raw_embedding)
qed

lemma create_embedding_unit:
  assumes "\<not> zero_residues rt (tokenize rt t)"
  shows "euclid_norm (create_embedding rt t) = 1"
proof -
  let ?raw = "raw_embedding rt (tokenize rt t)"
  have "euclid_norm ?raw \<noteq> 0"
    using assms by (simp add: euclid_norm_zero_iff raw_embedding_zero_iff)
  then have pos: "0 < euclid_norm ?raw"
    using euclid_norm_nonneg [of ?raw] by simp
  then have "create_embedding rt t = map (\<lambda>x. x / euclid_norm ?raw) ?raw"
    by (simp add: create_embedding_if)
  then show ?thesis using euclid_norm_normalised [OF pos] by simp
qed

lemma zero_residues_Nil: "zero_residues rt []"
  by (simp add: zero_residues_def)

lemma euclid_norm_replicate_zero: "euclid_norm (replicate n 0) = 0"
  by (simp add: euclid_norm_zero_iff)

section \<open>Concrete tokens and hashes\<close>

lemma not_zero_residuesI:
  "tok \<in> set tokens \<Longrightarrow> i < dimension \<Longrightarrow> str_hash rt (tok @ str_nat i) mod 1000 \<noteq> 0 \<Longrightarrow>
   \<not> zero_residues rt tokens"
  unfolding zero_residues_def by (auto intro!: bexI [of _ tok] bexI [of _ i])

lemma tokenize_hello: "tokenize rt (ascii ''hello'') = [ascii ''hello'']"
  by (simp add: eval_text)

lemma tokenize_a: "tokenize rt (ascii ''a'') = []"
  by (simp add: eval_text)


lemma hash_secret_1: "hash_secret 1 = (12598376723466036009, 16999324916296290386)"
  by (simp add: hash_secret_def lcg_urandom.simps)

lemma hash0_hello0: "unicode_hash (0, 0) (ascii ''hello'' @ str_nat 0) mod 1000 = 607"
  by (simp add: ascii_def str_nat.simps eval_hash)

lemma hash0_hello1: "unicode_hash (0, 0) (ascii ''hello'' @ str_nat 1) mod 1000 = 441"
  by (simp add: ascii_def str_nat.simps eval_hash)

lemma hash1_hello0:
  "unicode_hash (12598376723466036009, 16999324916296290386) (ascii ''hello'' @ str_nat 0) mod 1000 = 264"
  by (simp add: ascii_def str_nat.simps eval_hash)

lemma hash1_hello1:
  "unicode_hash (12598376723466036009, 16999324916296290386) (ascii ''hello'' @ str_nat 1) mod 1000 = 870"
  by (simp add: ascii_def str_nat.simps eval_hash)

lemma hello_residues: "\<not> zero_residues (cpython (hash_secret 0)) [ascii ''hello'']"
proof (rule not_zero_residuesI [where tok = "ascii ''hello''" and i = 0])
  show "str_hash (cpython (hash_secret 0)) (ascii ''hello'' @ str_nat 0) mod 1000 \<noteq> 0"
    by (simp add: cpython_def hash_secret_0 hash0_hello0)
qed (simp_all add: dimension_def)


section \<open>When two embeddings differ\<close>

lemma create_embedding_nth:
  assumes "i < dimension"
  shows "create_embedding rt t ! i =
           (if 0 < euclid_norm (raw_embedding rt (tokenize rt t))
            then raw_component (str_hash rt) (tokenize rt t) i
                   / euclid_norm (raw_embedding rt (tokenize rt t))
            else raw_component (str_hash rt) (tokenize rt t) i)"
  using assms by (simp add: create_embedding_if length_raw_embedding) (simp add: raw_embedding_map)

lemma raw_component_zero_norm:
  assumes "euclid_norm (raw_embedding rt tokens) = 0" and "i < dimension"
  shows "raw_component (str_hash rt) tokens i = 0"
proof -
  have "raw_embedding rt tokens ! i \<in> set (raw_embedding rt tokens)"
    using assms(2) by (simp add: length_raw_embedding)
  then have "raw_embedding rt tokens ! i = 0"
    using assms(1) by (simp add: euclid_norm_zero_iff)
  then show ?thesis using assms(2) by (simp add: raw_embedding_map)
qed

lemma embeddings_differ:
  assumes i: "i < dimension" and k: "k < dimension"
    and cross: "raw_component (str_hash rt1) (tokenize rt1 t1) i
                  * raw_component (str_hash rt2) (tokenize rt2 t2) k \<noteq>
                raw_component (str_hash rt1) (tokenize rt1 t1) k
                  * raw_component (str_hash rt2) (tokenize rt2 t2) i"
  shows "create_embedding rt1 t1 \<noteq> create_embedding rt2 t2"
proof
  assume eq: "create_embedding rt1 t1 = create_embedding rt2 t2"
  let ?N1 = "euclid_norm (raw_embedding rt1 (tokenize rt1 t1))"
  let ?N2 = "euclid_norm (raw_embedding rt2 (tokenize rt2 t2))"
  let ?a = "raw_component (str_hash rt1) (tokenize rt1 t1) i"
  let ?b = "raw_component (str_hash rt1) (tokenize rt1 t1) k"
  let ?c = "raw_component (str_hash rt2) (tokenize rt2 t2) i"
  let ?d = "raw_component (str_hash rt2) (tokenize rt2 t2) k"
  have n1: "0 < ?N1"
  proof (rule ccontr)
    assume "\<not> 0 < ?N1"
    then have z: "?N1 = 0" using euclid_norm_nonneg [of "raw_embedding rt1 (tokenize rt1 t1)"] by simp
    have "?a = 0" "?b = 0" using raw_component_zero_norm [OF z] i k by simp_all
    with cross show False by simp
  qed
  have n2: "0 < ?N2"
  proof (rule ccontr)
    assume "\<not> 0 < ?N2"
    then have z: "?N2 = 0" using euclid_norm_nonneg [of "raw_embedding rt2 (tokenize rt2 t2)"] by simp
    have "?c = 0" "?d = 0" using raw_component_zero_norm [OF z] i k by simp_all
    with cross show False by simp
  qed
  have "create_embedding rt1 t1 ! i = create_embedding rt2 t2 ! i"
       "create_embedding rt1 t1 ! k = create_embedding rt2 t2 ! k"
    using eq by simp_all
  then have e1: "?a / ?N1 = ?c / ?N2" and e2: "?b / ?N1 = ?d / ?N2"
    using n1 n2 i k by (simp_all add: create_embedding_nth)
  from e1 have a: "?a = ?c * ?N1 / ?N2" using n1 n2 by (simp add: field_simps)
  from e2 have b: "?b = ?d * ?N1 / ?N2" using n1 n2 by (simp add: field_simps)
  have "?a * ?d = ?b * ?c" by (subst a, subst b) simp
  with cross show False by simp
qed

lemma raw_component_single:
  "raw_component h [tok] i = real_of_int (h (tok @ str_nat i) mod 1000) / 1000"
  by (simp add: raw_component_def contribution_def)

section \<open>The request handlers\<close>

lemma dict_get_PDict:
  "dict_get (PDict items) key dflt = Inr (case map_of items key of Some v \<Rightarrow> v | None \<Rightarrow> dflt)"
  by (simp add: dict_get_def)

lemma dict_get_InrD: "dict_get request_data key dflt = Inr v \<Longrightarrow> \<exists>items. request_data = PDict items"
  by (cases request_data) (simp_all add: dict_get_def)

lemma dict_get_total: "dict_get (PDict items) key dflt \<noteq> Inl e"
  by (simp add: dict_get_def)

lemma embed_loop_strs:
  "embed_loop rt (map PStr ts) embeddings = Inr (embeddings @ map (create_embedding rt) ts)"
  by (induction ts arbitrary: embeddings) simp_all

lemma calculate_similarity_of_strs:
  "calculate_similarity_of rt (PStr a) (PStr b) = Inr (calculate_similarity rt a b)"
  by (simp add: calculate_similarity_of_def calculate_similarity_def)

lemma embed_try_status:
  "embed_try rt s e request_data = Inr resp \<Longrightarrow>
   dict_get request_data (ascii ''texts'') (PList []) = Inr texts \<Longrightarrow>
   (status_code resp = 400 \<longleftrightarrow> falsy texts) \<and> (\<not> falsy texts \<longrightarrow> status_code resp = 200)"
  by (auto simp: embed_try_def send_response_json_def Let_def split: sum.splits if_splits)

lemma embed_try_falsy:
  "dict_get request_data (ascii ''texts'') (PList []) = Inr texts \<Longrightarrow> falsy texts \<Longrightarrow>
   embed_try rt s e request_data =
     Inr (send_response_json (PDict [(ascii ''error'', PStr (ascii ''No texts provided''))]) 400)"
  by (auto simp: embed_try_def dest!: dict_get_InrD simp: dict_get_PDict)

lemma embed_try_strs:
  "dict_get request_data (ascii ''texts'') (PList []) = Inr (PList (map PStr ts)) \<Longrightarrow> ts \<noteq> [] \<Longrightarrow>
   embed_try rt s e request_data =
     Inr (send_response_json
       (PDict
         [(ascii ''embeddings'', PList (map (\<lambda>t. PList (map PFloat (create_embedding rt t))) ts)),
          (ascii ''model_name'', PStr (ascii ''simple-korean-embedding'')),
          (ascii ''dimension'', PInt 768),
          (ascii ''processing_time'', PFloat (e - s))]) 200)"
  by (auto simp: embed_try_def embed_loop_strs Let_def dimension_def comp_def
      dest!: dict_get_InrD simp: dict_get_PDict)

lemma handle_embed_request_Inr:
  "handle_embed_request rt s e (Inr request_data) =
     (case embed_try rt s e request_data of
        Inl err \<Rightarrow> send_response_json (PDict [(ascii ''error'', PStr (exn_str rt err))]) 500
      | Inr resp \<Rightarrow> resp)"
  by (simp add: handle_embed_request_def)

lemma tokenize_spaces: "tokenize rt (ascii ''   '') = []"
  by (simp add: eval_text)

lemma tokenize_empty: "tokenize rt [] = []"
  by (simp add: eval_text)

lemma create_embedding_spaces: "create_embedding rt (ascii ''   '') = replicate 768 0"
  using create_embedding_zero [of rt "ascii ''   ''"]
  by (simp add: tokenize_spaces zero_residues_Nil dimension_def)

lemma create_embedding_empty: "create_embedding rt [] = replicate 768 0"
  using create_embedding_zero [of rt "[]"]
  by (simp add: tokenize_empty zero_residues_Nil dimension_def)

lemma similarity_try_strs:
  assumes "dict_get request_data (ascii ''text1'') (PStr []) = Inr (PStr text1)"
    and "dict_get request_data (ascii ''text2'') (PStr []) = Inr (PStr text2)"
  shows "similarity_try rt s e request_data =
     Inr (if text1 = [] \<or> text2 = []
          then send_response_json
                 (PDict [(ascii ''error'', PStr (ascii ''Both text1 and text2 are required''))]) 400
          else send_response_json
                 (PDict [(ascii ''similarity'', PFloat (calculate_similarity rt text1 text2)),
                         (ascii ''processing_time'', PFloat (e - s))]) 200)"
  using assms by (simp add: similarity_try_def calculate_similarity_of_strs Let_def)

section \<open>The tokenizer\<close>

lemma isspace_32: "isspace 32"
  by (simp add: isspace_def)

lemma collapse_runs_space:
  "isspace c \<Longrightarrow> collapse_runs (c # cs) = 32 # collapse_runs (dropWhile isspace cs)"
  by (induction cs arbitrary: c) simp_all

lemma collapse_runs_other: "\<not> isspace c \<Longrightarrow> collapse_runs (c # cs) = c # collapse_runs cs"
  by (cases cs) simp_all

lemma sub_spaces_collapse_runs: "sub_spaces t = collapse_runs t"
  by (induction t rule: sub_spaces.induct) (simp_all add: collapse_runs_space collapse_runs_other)

lemma split_ws_str_split:
  "split_ws w t =
     (if w = [] then str_split t
      else (w @ takeWhile (\<lambda>x. \<not> isspace x) t) # str_split (dropWhile (\<lambda>x. \<not> isspace x) t))"
proof (induction t arbitrary: w)
  case Nil
  show ?case by (simp add: str_split_Nil)
next
  case (Cons c cs)
  show ?case
  proof (cases "isspace c")
    case True
    then show ?thesis
      using Cons.IH [of "[]"] by (simp add: str_split_Cons)
  next
    case False
    then show ?thesis
      using Cons.IH [of "w @ [c]"] by (simp add: str_split_Cons)
  qed
qed

lemma sub_other_replace_other: "sub_other t = replace_other t"
  by (simp add: sub_other_def replace_other_def)

lemma tokenize_normalize_and_tokenize: "tokenize rt t = normalize_and_tokenize (lower rt) t"
  by (simp add: tokenize_def preprocess_text_def normalize_and_tokenize_def Let_def
      sub_spaces_collapse_runs sub_other_replace_other split_ws_str_split)

lemma set_sub_spaces: "set (sub_spaces t) \<subseteq> insert 32 (set t)"
proof (induction t rule: sub_spaces.induct)
  case 1
  show ?case by simp
next
  case (2 c cs)
  show ?case
  proof (cases "isspace c")
    case True
    with 2 have "set (sub_spaces (dropWhile isspace cs)) \<subseteq> insert 32 (set (dropWhile isspace cs))"
      by simp
    moreover have "set (dropWhile isspace cs) \<subseteq> set cs"
      by (auto dest: set_dropWhileD)
    ultimately show ?thesis using True by auto
  next
    case False
    with 2 show ?thesis by auto
  qed
qed

lemma set_strip: "set (strip t) \<subseteq> set t"
  by (auto simp: strip_def dest!: set_dropWhileD)

lemma str_split_chars:
  "w \<in> set (str_split t) \<Longrightarrow> c \<in> set w \<Longrightarrow> c \<in> set t \<and> \<not> isspace c"
proof (induction t rule: str_split.induct)
  case (1 t)
  show ?case
  proof (cases "dropWhile isspace t")
    case Nil
    with 1(2) show ?thesis by (subst (asm) str_split.simps) simp
  next
    case (Cons d ds)
    have sub: "set (d # ds) \<subseteq> set t"
      using set_dropWhileD [of _ isspace t] Cons by auto
    have d: "\<not> isspace d"
      using hd_dropWhile [of isspace t] Cons by simp
    from 1(2) Cons
    have "w = d # takeWhile (\<lambda>x. \<not> isspace x) ds \<or>
          w \<in> set (str_split (dropWhile (\<lambda>x. \<not> isspace x) ds))"
      by (subst (asm) str_split.simps) simp
    then show ?thesis
    proof
      assume "w = d # takeWhile (\<lambda>x. \<not> isspace x) ds"
      with 1(3) have "c = d \<or> c \<in> set (takeWhile (\<lambda>x. \<not> isspace x) ds)" by simp
      then show ?thesis
        using d sub by (auto dest: set_takeWhileD)
    next
      assume "w \<in> set (str_split (dropWhile (\<lambda>x. \<not> isspace x) ds))"
      from 1(1) [OF Cons this 1(3)]
      have "c \<in> set (dropWhile (\<lambda>x. \<not> isspace x) ds)" and "\<not> isspace c" by simp_all
      then show ?thesis using sub by (auto dest: set_dropWhileD)
    qed
  qed
qed

lemma str_split_all_space: "\<forall>c \<in> set t. isspace c \<Longrightarrow> str_split t = []"
  by (induction t) (simp_all add: str_split_Nil str_split_Cons)

lemma preprocess_text_chars:
  "c \<in> set (preprocess_text rt t) \<Longrightarrow>
   isspace c \<or> (c \<in> set (lower rt t) \<and> (is_hangul c \<or> is_latin c \<or> is_digit c))"
proof -
  assume "c \<in> set (preprocess_text rt t)"
  then have "c \<in> insert 32 (set (sub_other (lower rt t)))"
    using set_strip set_sub_spaces by (fastforce simp: preprocess_text_def)
  then show ?thesis
    by (auto simp: sub_other_def isspace_32 split: if_splits)
qed

lemma tokenize_chars:
  assumes "w \<in> set (tokenize rt t)"
  shows "2 \<le> length w \<and> (\<forall>c \<in> set w. is_hangul c \<or> is_latin c \<or> is_digit c)"
proof -
  from assms have w: "w \<in> set (str_split (preprocess_text rt t))" and l: "2 \<le> length w"
    by (simp_all add: tokenize_def)
  have "is_hangul c \<or> is_latin c \<or> is_digit c" if "c \<in> set w" for c
    using str_split_chars [OF w that] preprocess_text_chars [of c rt t] by blast
  with l show ?thesis by blast
qed

lemma tokenize_no_word_chars:
  assumes "\<forall>c \<in> set (lower rt t). \<not> is_hangul c \<and> \<not> is_latin c \<and> \<not> is_digit c"
  shows "tokenize rt t = []"
proof -
  have "\<forall>c \<in> set (preprocess_text rt t). isspace c"
    using assms preprocess_text_chars [of _ rt t] by blast
  then show ?thesis
    by (simp add: tokenize_def str_split_all_space)
qed

lemma lower_ascii_punctuation:
  assumes "\<forall>c \<in> set t. c < 128 \<and> \<not> is_latin c \<and> \<not> is_digit c"
  shows "lower rt t = t"
proof -
  have "map ascii_lower t = t"
    using assms by (intro map_idI) (auto simp: ascii_lower_def is_latin_def)
  with assms show ?thesis by (simp add: lower_def)
qed

lemma tokenize_ascii_punctuation:
  assumes "\<forall>c \<in> set t. c < 128 \<and> \<not> is_latin c \<and> \<not> is_digit c"
  shows "tokenize rt t = []"
proof (rule tokenize_no_word_chars)
  show "\<forall>c \<in> set (lower rt t). \<not> is_hangul c \<and> \<not> is_latin c \<and> \<not> is_digit c"
    using assms by (auto simp: lower_ascii_punctuation [OF assms] is_hangul_def)
qed

section \<open>The claims\<close>





text \<open>
  C10. Every component of every vector returned by \<open>create_embedding\<close> is at least 0;
  so the dot product of two such vectors is at least 0, and the lower clamp
  \<open>max(0.0, _)\<close> of \<open>calculate_similarity\<close> never changes the value.
\<close>

theorem embedding_components_nonneg:
  "(\<forall>x \<in> set (create_embedding rt text1). 0 \<le> x) \<and>
   0 \<le> dot (create_embedding rt text1) (create_embedding rt text2) \<and>
   max 0 (min 1 (dot (create_embedding rt text1) (create_embedding rt text2))) =
     min 1 (dot (create_embedding rt text1) (create_embedding rt text2))"
proof -
  have d: "0 \<le> dot (create_embedding rt text1) (create_embedding rt text2)"
    by (rule dot_nonneg) (auto dest: create_embedding_nonneg)
  then show ?thesis by (auto dest: create_embedding_nonneg)
qed

theorem embedding_components_nonneg_witness:
  "0 \<le> create_embedding (cpython (hash_secret 0)) (ascii ''hello'') ! 0 \<and>
   0 \<le> dot (create_embedding (cpython (hash_secret 0)) (ascii ''hello''))
            (create_embedding (cpython (hash_secret 0)) (ascii ''world''))"
proof -
  have "create_embedding (cpython (hash_secret 0)) (ascii ''hello'') ! 0
          \<in> set (create_embedding (cpython (hash_secret 0)) (ascii ''hello''))"
    by (rule nth_mem) (simp add: length_create_embedding dimension_def)
  then show ?thesis
    using embedding_components_nonneg
      [of "cpython (hash_secret 0)" "ascii ''hello''" "ascii ''world''"]
    by blast
qed

text \<open>
  C1. The claim: \<open>create_embedding\<close> of a text is the same vector in every process,
  the hash of a token being independent of any seed. The program calls the built-in
  \<^verbatim>\<open>hash\<close>, whose key differs from process to process: the text \<^verbatim>\<open>hello\<close> has
  different embeddings in a process started with \<^verbatim>\<open>PYTHONHASHSEED=0\<close> and in one started
  with \<^verbatim>\<open>PYTHONHASHSEED=1\<close>.
\<close>

theorem create_embedding_differs_between_processes:
  "create_embedding (cpython (hash_secret 0)) (ascii ''hello'') \<noteq>
   create_embedding (cpython (hash_secret 1)) (ascii ''hello'')"
proof (rule embeddings_differ [where i = 0 and k = 1])
  show "raw_component (str_hash (cpython (hash_secret 0)))
          (tokenize (cpython (hash_secret 0)) (ascii ''hello'')) 0 *
        raw_component (str_hash (cpython (hash_secret 1)))
          (tokenize (cpython (hash_secret 1)) (ascii ''hello'')) 1 \<noteq>
        raw_component (str_hash (cpython (hash_secret 0)))
          (tokenize (cpython (hash_secret 0)) (ascii ''hello'')) 1 *
        raw_component (str_hash (cpython (hash_secret 1)))
          (tokenize (cpython (hash_secret 1)) (ascii ''hello'')) 0"
    by (simp add: tokenize_hello raw_component_single cpython_def hash_secret_0 hash_secret_1
        hash0_hello0 hash0_hello1 hash1_hello0 hash1_hello1 del: One_nat_def)
qed (simp_all add: dimension_def)




text \<open>
  C5, as amended. \<open>calculate_similarity(a, a)\<close> is 1 for every text \<open>a\<close> whose embedding
  is not the zero vector, and 0 for the others, among them every text without a token of
  two characters, such as \<^verbatim>\<open>a\<close>.
\<close>

theorem self_similarity:
  "calculate_similarity rt a a = (if zero_residues rt (tokenize rt a) then 0 else 1)"
proof (cases "zero_residues rt (tokenize rt a)")
  case True
  then have "euclid_norm (create_embedding rt a) = 0"
    by (simp add: create_embedding_zero euclid_norm_replicate_zero)
  with True show ?thesis
    by (simp add: calculate_similarity_def dot_self)
next
  case False
  then show ?thesis
    by (simp add: calculate_similarity_def dot_self create_embedding_unit)
qed

theorem self_similarity_witness:
  "\<not> zero_residues (cpython (hash_secret 0)) (tokenize (cpython (hash_secret 0)) (ascii ''hello'')) \<and>
   calculate_similarity (cpython (hash_secret 0)) (ascii ''hello'') (ascii ''hello'') = 1"
  using self_similarity [of "cpython (hash_secret 0)" "ascii ''hello''"]
  by (simp add: tokenize_hello hello_residues)

theorem self_similarity_counterexample:
  "ascii ''a'' \<noteq> [] \<and>
   calculate_similarity (cpython (hash_secret 0)) (ascii ''a'') (ascii ''a'') = 0"
proof -
  have "create_embedding (cpython (hash_secret 0)) (ascii ''a'') = replicate dimension 0"
    by (rule create_embedding_zero) (simp add: tokenize_a zero_residues_Nil)
  then show ?thesis
    by (simp add: calculate_similarity_def dot_self euclid_norm_replicate_zero ascii_def)
qed

text \<open>
  C2, as amended. POST /embed answers 400 with the body \<^verbatim>\<open>{"error": "No texts provided"}\<close>
  exactly when the \<^verbatim>\<open>texts\<close> value of the request is missing or falsy (an empty list); no
  entry is trimmed or dropped. A non-empty list of strings is answered with 200 and
  one embedding per entry, in order; a whitespace-only or empty entry is embedded as the
  zero vector.
\<close>

theorem embed_request_validation:
  assumes "dict_get request_data (ascii ''texts'') (PList []) = Inr texts"
  shows "(status_code (handle_embed_request rt s e (Inr request_data)) = 400 \<longleftrightarrow> falsy texts) \<and>
         (falsy texts \<longrightarrow>
            data (handle_embed_request rt s e (Inr request_data)) =
              PDict [(ascii ''error'', PStr (ascii ''No texts provided''))]) \<and>
         (texts = PList (map PStr ts) \<and> ts \<noteq> [] \<longrightarrow>
            status_code (handle_embed_request rt s e (Inr request_data)) = 200 \<and>
            field (handle_embed_request rt s e (Inr request_data)) (ascii ''embeddings'') =
              Some (PList (map (\<lambda>t. PList (map PFloat (create_embedding rt t))) ts)))"
proof (intro conjI impI)
  show "status_code (handle_embed_request rt s e (Inr request_data)) = 400 \<longleftrightarrow> falsy texts"
  proof (cases "embed_try rt s e request_data")
    case (Inl err)
    then have "\<not> falsy texts" using embed_try_falsy [OF assms] by auto
    with Inl show ?thesis by (simp add: handle_embed_request_Inr send_response_json_def)
  next
    case (Inr resp)
    then show ?thesis using embed_try_status [OF Inr assms] by (simp add: handle_embed_request_Inr)
  qed
next
  assume "falsy texts"
  then show "data (handle_embed_request rt s e (Inr request_data)) =
      PDict [(ascii ''error'', PStr (ascii ''No texts provided''))]"
    by (simp add: handle_embed_request_Inr embed_try_falsy [OF assms] send_response_json_def)
next
  assume a: "texts = PList (map PStr ts) \<and> ts \<noteq> []"
  then show "status_code (handle_embed_request rt s e (Inr request_data)) = 200"
    using assms by (simp add: handle_embed_request_Inr embed_try_strs send_response_json_def)
  from a show "field (handle_embed_request rt s e (Inr request_data)) (ascii ''embeddings'') =
      Some (PList (map (\<lambda>t. PList (map PFloat (create_embedding rt t))) ts))"
    using assms
    by (simp add: handle_embed_request_Inr embed_try_strs send_response_json_def field_def)
qed

theorem embed_request_validation_witness:
  "status_code (handle_embed_request (cpython (hash_secret 0)) 0 1 (Inr (PDict []))) = 400 \<and>
   data (handle_embed_request (cpython (hash_secret 0)) 0 1 (Inr (PDict []))) =
     PDict [(ascii ''error'', PStr (ascii ''No texts provided''))] \<and>
   status_code (handle_embed_request (cpython (hash_secret 0)) 0 1
     (Inr (PDict [(ascii ''texts'', PList [PStr (ascii ''hello'')])]))) = 200 \<and>
   field (handle_embed_request (cpython (hash_secret 0)) 0 1
     (Inr (PDict [(ascii ''texts'', PList [PStr (ascii ''hello'')])]))) (ascii ''embeddings'') =
     Some (PList [PList (map PFloat (create_embedding (cpython (hash_secret 0)) (ascii ''hello'')))])"
proof -
  have 1: "dict_get (PDict []) (ascii ''texts'') (PList []) = Inr (PList [])"
    by (simp add: dict_get_PDict)
  have 2: "dict_get (PDict [(ascii ''texts'', PList [PStr (ascii ''hello'')])])
             (ascii ''texts'') (PList []) = Inr (PList (map PStr [ascii ''hello'']))"
    by (simp add: dict_get_PDict)
  show ?thesis
    using embed_request_validation [OF 1, of "cpython (hash_secret 0)" 0 1 "[]"]
      embed_request_validation [OF 2, of "cpython (hash_secret 0)" 0 1 "[ascii ''hello'']"]
    by simp
qed

theorem embed_whitespace_counterexample:
  "status_code (handle_embed_request (cpython (hash_secret 0)) 0 1
     (Inr (PDict [(ascii ''texts'', PList [PStr (ascii ''   ''), PStr []])]))) = 200 \<and>
   field (handle_embed_request (cpython (hash_secret 0)) 0 1
     (Inr (PDict [(ascii ''texts'', PList [PStr (ascii ''   ''), PStr []])]))) (ascii ''embeddings'') =
     Some (PList [PList (replicate 768 (PFloat 0)), PList (replicate 768 (PFloat 0))])"
proof -
  have "dict_get (PDict [(ascii ''texts'', PList [PStr (ascii ''   ''), PStr []])])
          (ascii ''texts'') (PList []) = Inr (PList (map PStr [ascii ''   '', []]))"
    by (simp add: dict_get_PDict)
  from embed_try_strs [OF this, of "cpython (hash_secret 0)" 0 1]
  show ?thesis
    by (simp add: handle_embed_request_Inr send_response_json_def field_def
        create_embedding_spaces create_embedding_empty)
qed

text \<open>
  C8. For a request whose \<^verbatim>\<open>text1\<close> and \<^verbatim>\<open>text2\<close> are strings (a missing field reads as
  the empty string), POST /similarity answers 400 with an error body exactly when one of
  the two is empty; when both are non-empty it answers 200 with the similarity and the
  processing time.
\<close>

theorem similarity_request_validation:
  assumes "dict_get request_data (ascii ''text1'') (PStr []) = Inr (PStr text1)"
    and "dict_get request_data (ascii ''text2'') (PStr []) = Inr (PStr text2)"
  shows "(status_code (handle_similarity_request rt s e (Inr request_data)) = 400 \<longleftrightarrow>
            text1 = [] \<or> text2 = []) \<and>
         (text1 = [] \<or> text2 = [] \<longrightarrow>
            data (handle_similarity_request rt s e (Inr request_data)) =
              PDict [(ascii ''error'', PStr (ascii ''Both text1 and text2 are required''))]) \<and>
         (text1 \<noteq> [] \<and> text2 \<noteq> [] \<longrightarrow>
            status_code (handle_similarity_request rt s e (Inr request_data)) = 200 \<and>
            data (handle_similarity_request rt s e (Inr request_data)) =
              PDict [(ascii ''similarity'', PFloat (calculate_similarity rt text1 text2)),
                     (ascii ''processing_time'', PFloat (e - s))])"
  by (simp add: handle_similarity_request_def similarity_try_strs [OF assms] send_response_json_def)

theorem similarity_request_validation_witness:
  "status_code (handle_similarity_request (cpython (hash_secret 0)) 0 1
     (Inr (PDict [(ascii ''text1'', PStr []), (ascii ''text2'', PStr (ascii ''hello''))]))) = 400 \<and>
   status_code (handle_similarity_request (cpython (hash_secret 0)) 0 1
     (Inr (PDict [(ascii ''text1'', PStr (ascii ''hello''))]))) = 400 \<and>
   data (handle_similarity_request (cpython (hash_secret 0)) 0 1
     (Inr (PDict [(ascii ''text1'', PStr (ascii ''hello'')), (ascii ''text2'', PStr (ascii ''world''))]))) =
     PDict [(ascii ''similarity'',
             PFloat (calculate_similarity (cpython (hash_secret 0)) (ascii ''hello'') (ascii ''world''))),
            (ascii ''processing_time'', PFloat 1)] \<and>
   status_code (handle_similarity_request (cpython (hash_secret 0)) 0 1
     (Inr (PDict [(ascii ''text1'', PStr (ascii ''hello'')), (ascii ''text2'', PStr (ascii ''world''))]))) = 200"
proof -
  have a1: "dict_get (PDict [(ascii ''text1'', PStr []), (ascii ''text2'', PStr (ascii ''hello''))])
              (ascii ''text1'') (PStr []) = Inr (PStr [])"
    and a2: "dict_get (PDict [(ascii ''text1'', PStr []), (ascii ''text2'', PStr (ascii ''hello''))])
              (ascii ''text2'') (PStr []) = Inr (PStr (ascii ''hello''))"
    and b1: "dict_get (PDict [(ascii ''text1'', PStr (ascii ''hello''))])
              (ascii ''text1'') (PStr []) = Inr (PStr (ascii ''hello''))"
    and b2: "dict_get (PDict [(ascii ''text1'', PStr (ascii ''hello''))])
              (ascii ''text2'') (PStr []) = Inr (PStr [])"
    and c1: "dict_get (PDict [(ascii ''text1'', PStr (ascii ''hello'')), (ascii ''text2'', PStr (ascii ''world''))])
              (ascii ''text1'') (PStr []) = Inr (PStr (ascii ''hello''))"
    and c2: "dict_get (PDict [(ascii ''text1'', PStr (ascii ''hello'')), (ascii ''text2'', PStr (ascii ''world''))])
              (ascii ''text2'') (PStr []) = Inr (PStr (ascii ''world''))"
    by (simp_all add: dict_get_PDict ascii_def)
  have ne: "ascii ''hello'' \<noteq> []" "ascii ''world'' \<noteq> []"
    by (simp_all add: ascii_def)
  show ?thesis
    using similarity_request_validation [OF a1 a2, of "cpython (hash_secret 0)" 0 1]
      similarity_request_validation [OF b1 b2, of "cpython (hash_secret 0)" 0 1]
      similarity_request_validation [OF c1 c2, of "cpython (hash_secret 0)" 0 1]
      ne
    by simp
qed

text \<open>
  C9. The \<^verbatim>\<open>normalize\<close> field of a POST /embed request has no effect: two requests that
  differ at most in that field (present with any value, or absent) get the same status and
  the same fields in the response, \<^verbatim>\<open>processing_time\<close> apart, which depends on the clock only.
\<close>

theorem normalize_field_ignored:
  assumes "\<forall>key. key \<noteq> ascii ''normalize'' \<longrightarrow> map_of items1 key = map_of items2 key"
  shows "status_code (handle_embed_request rt s1 e1 (Inr (PDict items1))) =
           status_code (handle_embed_request rt s2 e2 (Inr (PDict items2))) \<and>
         (\<forall>key. key \<noteq> ascii ''processing_time'' \<longrightarrow>
            field (handle_embed_request rt s1 e1 (Inr (PDict items1))) key =
            field (handle_embed_request rt s2 e2 (Inr (PDict items2))) key) \<and>
         (e1 - s1 = e2 - s2 \<longrightarrow>
            handle_embed_request rt s1 e1 (Inr (PDict items1)) =
            handle_embed_request rt s2 e2 (Inr (PDict items2)))"
proof -
  have "ascii ''texts'' \<noteq> ascii ''normalize''" by (simp add: ascii_def)
  with assms have t: "map_of items1 (ascii ''texts'') = map_of items2 (ascii ''texts'')"
    by blast
  show ?thesis
    by (simp add: handle_embed_request_def embed_try_def dict_get_PDict t Let_def
        send_response_json_def field_def split: sum.splits)
qed

theorem normalize_field_ignored_witness:
  "status_code (handle_embed_request (cpython (hash_secret 0)) 0 1
     (Inr (PDict [(ascii ''texts'', PList [PStr (ascii ''hello'')]), (ascii ''normalize'', PBool False)]))) =
   status_code (handle_embed_request (cpython (hash_secret 0)) 0 1
     (Inr (PDict [(ascii ''texts'', PList [PStr (ascii ''hello'')])]))) \<and>
   field (handle_embed_request (cpython (hash_secret 0)) 0 1
     (Inr (PDict [(ascii ''texts'', PList [PStr (ascii ''hello'')]), (ascii ''normalize'', PBool False)])))
     (ascii ''embeddings'') =
   field (handle_embed_request (cpython (hash_secret 0)) 0 1
     (Inr (PDict [(ascii ''texts'', PList [PStr (ascii ''hello'')])]))) (ascii ''embeddings'') \<and>
   handle_embed_request (cpython (hash_secret 0)) 0 1
     (Inr (PDict [(ascii ''texts'', PList [PStr (ascii ''hello'')]), (ascii ''normalize'', PStr (ascii ''no''))])) =
   handle_embed_request (cpython (hash_secret 0)) 0 1
     (Inr (PDict [(ascii ''texts'', PList [PStr (ascii ''hello'')])]))"
proof -
  have h1: "\<forall>key. key \<noteq> ascii ''normalize'' \<longrightarrow>
      map_of [(ascii ''texts'', PList [PStr (ascii ''hello'')]), (ascii ''normalize'', PBool False)] key =
      map_of [(ascii ''texts'', PList [PStr (ascii ''hello'')])] key"
    by simp
  have h2: "\<forall>key. key \<noteq> ascii ''normalize'' \<longrightarrow>
      map_of [(ascii ''texts'', PList [PStr (ascii ''hello'')]), (ascii ''normalize'', PStr (ascii ''no''))] key =
      map_of [(ascii ''texts'', PList [PStr (ascii ''hello'')])] key"
    by simp
  have k: "ascii ''embeddings'' \<noteq> ascii ''processing_time''"
    by (simp add: ascii_def)
  show ?thesis
    using normalize_field_ignored [OF h1, of "cpython (hash_secret 0)" 0 1 0 1]
      normalize_field_ignored [OF h2, of "cpython (hash_secret 0)" 0 1 0 1] k
    by simp
qed

text \<open>
  C6. \<open>tokenize\<close> lowercases the text, replaces every character that is not a Hangul
  syllable, a Latin letter, a digit or whitespace by a space, collapses runs of
  whitespace, trims the edges, splits on whitespace and keeps the tokens of at least two
  characters: it is the specification's \<open>normalize_and_tokenize\<close>, and every token has at
  least two characters, all of them Hangul syllables, Latin letters or digits. On a text
  without such a character after lowercasing, on one of ASCII punctuation and
  whitespace only, and on the empty text it returns the empty sequence; it raises nothing.
\<close>

theorem tokenize_refines_specification:
  "tokenize rt t = normalize_and_tokenize (lower rt) t \<and>
   (\<forall>w \<in> set (tokenize rt t).
      2 \<le> length w \<and> (\<forall>c \<in> set w. is_hangul c \<or> is_latin c \<or> is_digit c)) \<and>
   ((\<forall>c \<in> set (lower rt t). \<not> is_hangul c \<and> \<not> is_latin c \<and> \<not> is_digit c) \<longrightarrow>
      tokenize rt t = []) \<and>
   ((\<forall>c \<in> set t. c < 128 \<and> \<not> is_latin c \<and> \<not> is_digit c) \<longrightarrow> tokenize rt t = []) \<and>
   tokenize rt [] = []"
  using tokenize_chars [of _ rt t] tokenize_ascii_punctuation [of "[]" rt]
  by (auto simp: tokenize_normalize_and_tokenize [symmetric]
      intro: tokenize_no_word_chars tokenize_ascii_punctuation)

theorem tokenize_refines_specification_witness:
  "normalize_and_tokenize (lower (cpython (hash_secret 0))) (ascii ''Hello, World! a'') =
     [ascii ''hello'', ascii ''world''] \<and>
   tokenize (cpython (hash_secret 0)) (ascii ''?! ... -- ()'') = [] \<and>
   tokenize (cpython (hash_secret 0)) [] = []"
proof -
  have 1: "tokenize (cpython (hash_secret 0)) (ascii ''Hello, World! a'') =
      [ascii ''hello'', ascii ''world'']"
    by (simp add: eval_text)
  have 2: "\<forall>c \<in> set (ascii ''?! ... -- ()''). c < 128 \<and> \<not> is_latin c \<and> \<not> is_digit c"
    by (simp add: ascii_def is_latin_def is_digit_def)
  note a = tokenize_refines_specification
    [of "cpython (hash_secret 0)" "ascii ''Hello, World! a''", THEN conjunct1]
  have b: "tokenize (cpython (hash_secret 0)) (ascii ''?! ... -- ()'') = []"
    using tokenize_refines_specification [of "cpython (hash_secret 0)" "ascii ''?! ... -- ()''"] 2
    by blast
  have c: "tokenize (cpython (hash_secret 0)) [] = []"
    using tokenize_refines_specification [of "cpython (hash_secret 0)" "[]"] by blast
  show ?thesis
    using a b c 1 by simp
qed

end
